theory Spec2Isabelle
  imports Main "HOL-Library.Sublist"
begin

section \<open>JavaScript values and string primitives\<close>

text \<open>
  The values a property read of the dashboard can produce. \<open>JFunction k\<close> is the
  method named \<open>k\<close> that every object literal inherits from \<open>Object.prototype\<close>,
  and \<open>JObjectPrototype\<close> is the prototype object itself, which the inherited accessor
  \<open>__proto__\<close> returns. Neither is \<open>null\<close>, \<open>undefined\<close> or a string.
\<close>

datatype jsval = JUndefined | JNull | JStr string | JFunction string | JObjectPrototype

text \<open>
  A string is a list of characters with the codes 0 to 255, read as the code points
  U+0000 to U+00FF. On these \<open>String.prototype.toLowerCase\<close> works character by
  character: the capital letters \<open>A\<close> to \<open>Z\<close> (65 to 90) and the accented capitals
  U+00C0 to U+00DE without the multiplication sign U+00D7 (192 to 214 and 216 to 222) move
  up by 32, and every other character stays.
\<close>

definition toLowerChar :: "char \<Rightarrow> char" where
  "toLowerChar c =
     (let n = (of_char c :: nat)
      in if (65 \<le> n \<and> n \<le> 90) \<or> (192 \<le> n \<and> n \<le> 214) \<or> (216 \<le> n \<and> n \<le> 222)
         then char_of (n + 32) else c)"

definition toLowerCase :: "string \<Rightarrow> string" where
  "toLowerCase s = map toLowerChar s"

text \<open>\<open>s.replace(/-/g, '')\<close>: every hyphen is dropped.\<close>

definition removeHyphens :: "string \<Rightarrow> string" where
  "removeHyphens s = filter (\<lambda>c. c \<noteq> CHR ''-'') s"

text \<open>\<open>s.includes(t)\<close>: \<open>t\<close> occurs in \<open>s\<close> as a contiguous run.\<close>

fun includes_str :: "string \<Rightarrow> string \<Rightarrow> bool" where
  "includes_str [] t = (t = [])"
| "includes_str (c # s) t = (prefix t (c # s) \<or> includes_str s t)"

section \<open>The Alert model (server/models/Alert.js)\<close>

text \<open>
  The field \<open>id\<close> is written \<open>id'\<close>. \<open>timestamp\<close> is \<open>JUndefined\<close> when the object
  has no such property.
\<close>

record alert =
  id' :: string
  severity :: string
  category :: string
  status :: string
  description :: string
  timestamp :: jsval

text \<open>
  The constructor destructures \<open>id, severity, category, status, description\<close> from its
  argument and assigns exactly these five; any other property of the argument is dropped.
\<close>

definition Alert :: "alert \<Rightarrow> alert" where
  "Alert props =
     \<lparr> id' = id' props, severity = severity props, category = category props,
       status = status props, description = description props, timestamp = JUndefined \<rparr>"

section \<open>The dashboard state and its derived values\<close>

text \<open>The filter criteria; the fields carry the suffix \<open>_f\<close> to keep them apart from the alert's.\<close>

record filters =
  severity_f :: string
  status_f :: string
  category_f :: string
  search :: string

record dashboard =
  alerts :: "alert list"
  filters :: filters

definition matchesSeverity :: "filters \<Rightarrow> alert \<Rightarrow> bool" where
  "matchesSeverity f a =
     (severity_f f = ''all'' \<or> toLowerCase (severity a) = toLowerCase (severity_f f))"

definition matchesStatus :: "filters \<Rightarrow> alert \<Rightarrow> bool" where
  "matchesStatus f a =
     (let normalizedStatus = removeHyphens (toLowerCase (status a))
      in status_f f = ''all'' \<or> normalizedStatus = removeHyphens (toLowerCase (status_f f)))"

definition matchesCategory :: "filters \<Rightarrow> alert \<Rightarrow> bool" where
  "matchesCategory f a =
     (category_f f = ''all'' \<or> toLowerCase (category a) = toLowerCase (category_f f))"

definition matchesSearch :: "filters \<Rightarrow> alert \<Rightarrow> bool" where
  "matchesSearch f a =
     (let searchLower = toLowerCase (search f)
      in search f = [] \<or> includes_str (toLowerCase (description a)) searchLower
           \<or> includes_str (toLowerCase (id' a)) searchLower)"

definition filteredAlerts :: "alert list \<Rightarrow> filters \<Rightarrow> alert list" where
  "filteredAlerts as f =
     filter (\<lambda>a. matchesSeverity f a \<and> matchesStatus f a \<and> matchesCategory f a \<and> matchesSearch f a) as"

record statistics_rec =
  new :: nat
  acknowledged :: nat
  inProgress :: nat
  resolved :: nat
  total :: nat

definition statistics :: "alert list \<Rightarrow> statistics_rec" where
  "statistics as =
     \<lparr> new = length (filter (\<lambda>a. status a = ''New'') as),
       acknowledged = length (filter (\<lambda>a. status a = ''Acknowledged'') as),
       inProgress = length (filter (\<lambda>a. status a = ''In-Progress'') as),
       resolved = length (filter (\<lambda>a. status a = ''Resolved'') as),
       total = length as \<rparr>"

text \<open>The four lifecycle values, in order.\<close>

definition lifecycle :: "string list" where
  "lifecycle = [''New'', ''Acknowledged'', ''In-Progress'', ''Resolved'']"

section \<open>Event handlers\<close>

text \<open>
  \<open>handleFilterChange\<close> writes one key of the criteria. A key other than the four that
  are read adds a property nothing looks at, so the criteria stay as they are.
\<close>

definition handleFilterChange :: "string \<Rightarrow> string \<Rightarrow> dashboard \<Rightarrow> dashboard" where
  "handleFilterChange filterType v st =
     st\<lparr> filters :=
       (if filterType = ''severity'' then (filters st)\<lparr> severity_f := v \<rparr>
        else if filterType = ''status'' then (filters st)\<lparr> status_f := v \<rparr>
        else if filterType = ''category'' then (filters st)\<lparr> category_f := v \<rparr>
        else if filterType = ''search'' then (filters st)\<lparr> search := v \<rparr>
        else filters st) \<rparr>"

text \<open>
  What the \<open>PUT\<close> request of \<open>handleStatusUpdate\<close> comes back with: the promise is
  rejected, or a response with an HTTP status code arrives.
\<close>

datatype fetch_result = Rejected | Response nat

definition ok :: "nat \<Rightarrow> bool" where
  "ok code = (200 \<le> code \<and> code \<le> 299)"

text \<open>
  \<open>handleStatusUpdate\<close> returns the text it shows with \<open>window.alert\<close> (if any) and
  the next state. A rejected request and a response that is not \<open>ok\<close> both end in the
  \<open>catch\<close> branch, before \<open>setAlerts\<close> is reached.
\<close>

definition handleStatusUpdate ::
    "fetch_result \<Rightarrow> string \<Rightarrow> string \<Rightarrow> dashboard \<Rightarrow> string option \<times> dashboard" where
  "handleStatusUpdate r alertId newStatus st =
     (case r of
        Rejected \<Rightarrow> (Some ''Failed to update alert status. Please try again.'', st)
      | Response code \<Rightarrow>
          if \<not> ok code then (Some ''Failed to update alert status. Please try again.'', st)
          else (None,
                st\<lparr> alerts :=
                  map (\<lambda>a. if id' a = alertId then a\<lparr> status := newStatus \<rparr> else a) (alerts st) \<rparr>))"

section \<open>The alert card\<close>

text \<open>The own properties of the \<open>transitions\<close> literal, and the names every object inherits.\<close>

definition transitions :: "(string \<times> jsval) list" where
  "transitions =
     [(''New'', JStr ''Acknowledged''),
      (''Acknowledged'', JStr ''In-Progress''),
      (''In-Progress'', JStr ''Resolved''),
      (''Resolved'', JNull)]"

definition objectPrototypeKeys :: "string list" where
  "objectPrototypeKeys =
     [''constructor'', ''hasOwnProperty'', ''isPrototypeOf'', ''propertyIsEnumerable'',
      ''toLocaleString'', ''toString'', ''valueOf'', ''__proto__'',
      ''__defineGetter__'', ''__defineSetter__'', ''__lookupGetter__'', ''__lookupSetter__'']"

text \<open>
  \<open>transitions[currentStatus]\<close>: an own property first, then the prototype chain, and
  \<open>undefined\<close> when neither has the key.
\<close>

definition getNextStatus :: "string \<Rightarrow> jsval" where
  "getNextStatus currentStatus =
     (case map_of transitions currentStatus of
        Some v \<Rightarrow> v
      | None \<Rightarrow>
          if currentStatus \<in> set objectPrototypeKeys
          then (if currentStatus = ''__proto__'' then JObjectPrototype
                else JFunction currentStatus)
          else JUndefined)"

definition nextStatus :: "alert \<Rightarrow> jsval" where
  "nextStatus a = getNextStatus (status a)"

definition canTransition :: "alert \<Rightarrow> bool" where
  "canTransition a = (nextStatus a \<noteq> JNull)"

text \<open>
  The button of the card: absent when \<open>canTransition\<close> is false, otherwise the arguments
  its click passes to \<open>onStatusUpdate\<close>. The button has \<open>nextStatus\<close> as a child
  (\<open>Mark as {nextStatus}\<close>); a child that is a plain object makes the render throw, while
  \<open>undefined\<close> and a function are rendered as nothing.
\<close>

datatype render_error = InvalidChild

definition transitionButton :: "alert \<Rightarrow> render_error + (string \<times> jsval) option" where
  "transitionButton a =
     (if canTransition a
      then (if nextStatus a = JObjectPrototype then Inl InvalidChild
            else Inr (Some (id' a, nextStatus a)))
      else Inr None)"

section \<open>The store's status update\<close>

datatype error = NotFound | InvalidTransition | MalformedRequest

text \<open>
  Modelled from the spec: the transition table of the store (the route handlers and the
  alert manager behind \<open>PUT /alerts/{id}/status\<close> are not among the sources).
\<close>

definition legalNext :: "string \<Rightarrow> string option" where
  "legalNext s =
     (if s = ''New'' then Some ''Acknowledged''
      else if s = ''Acknowledged'' then Some ''In-Progress''
      else if s = ''In-Progress'' then Some ''Resolved''
      else None)"

text \<open>
  Modelled from the spec: the store's "advance alert status" operation, which is missing
  from the sources. An unknown id is \<open>NotFound\<close>; a target that is not the single legal
  next value (or any target on a terminal alert) is \<open>InvalidTransition\<close>; otherwise the
  status of the alert is set and the updated alert returned. The result comes with the
  store after the call.
\<close>

definition updateAlertStatus ::
    "string \<Rightarrow> string \<Rightarrow> alert list \<Rightarrow> (error + alert) \<times> alert list" where
  "updateAlertStatus alertId target store =
     (case find (\<lambda>a. id' a = alertId) store of
        None \<Rightarrow> (Inl NotFound, store)
      | Some a \<Rightarrow>
          if legalNext (status a) = Some target
          then (Inr (a\<lparr> status := target \<rparr>),
                map (\<lambda>b. if id' b = alertId then b\<lparr> status := target \<rparr> else b) store)
          else (Inl InvalidTransition, store))"

text \<open>
  Modelled from the spec: the status code the HTTP layer answers with (\<open>404\<close> for
  \<open>NotFound\<close>, \<open>400\<close> for the two client errors, \<open>200\<close> with the updated alert).
\<close>

definition httpStatus :: "error + alert \<Rightarrow> nat" where
  "httpStatus r =
     (case r of Inl NotFound \<Rightarrow> 404 | Inl InvalidTransition \<Rightarrow> 400
      | Inl MalformedRequest \<Rightarrow> 400 | Inr _ \<Rightarrow> 200)"

section \<open>The filter criteria in the spec's words\<close>

text \<open>
  Two characters are the same letter when they are equal or one is the capital of the
  other (a capital and its small letter are 32 apart); two strings are equal
  case-insensitively when they agree letter by letter. Removing the hyphens of a string is
  written here on its own, by recursion over the string.
\<close>

definition isUpper :: "char \<Rightarrow> bool" where
  "isUpper c =
     (let n = (of_char c :: nat)
      in (65 \<le> n \<and> n \<le> 90) \<or> (192 \<le> n \<and> n \<le> 214) \<or> (216 \<le> n \<and> n \<le> 222))"

primrec withoutHyphens :: "string \<Rightarrow> string" where
  "withoutHyphens [] = []"
| "withoutHyphens (c # s) = (if c = CHR ''-'' then withoutHyphens s else c # withoutHyphens s)"

definition sameLetter :: "char \<Rightarrow> char \<Rightarrow> bool" where
  "sameLetter c d =
     (c = d \<or> (isUpper c \<and> (of_char d :: nat) = of_char c + 32)
            \<or> (isUpper d \<and> (of_char c :: nat) = of_char d + 32))"

definition equalsIgnoringCase :: "string \<Rightarrow> string \<Rightarrow> bool" where
  "equalsIgnoringCase s t = list_all2 sameLetter s t"



section \<open>String primitives against their specification\<close>

lemma of_char_toLowerChar:
  "(of_char (toLowerChar c) :: nat) = (if isUpper c then of_char c + 32 else of_char c)"
  by (auto simp: toLowerChar_def isUpper_def Let_def)

lemma toLowerChar_eq_iff: "toLowerChar c = toLowerChar d \<longleftrightarrow> sameLetter c d"
proof -
  define x y where "x = (of_char c :: nat)" and "y = (of_char d :: nat)"
  define U where "U = (\<lambda>n::nat. (65 \<le> n \<and> n \<le> 90) \<or> (192 \<le> n \<and> n \<le> 214) \<or> (216 \<le> n \<and> n \<le> 222))"
  have cd: "c = d \<longleftrightarrow> x = y"
    unfolding x_def y_def by (simp only: of_char_eq_iff)
  have up: "isUpper c = U x" "isUpper d = U y"
    by (simp_all add: isUpper_def U_def x_def y_def Let_def)
  have "toLowerChar c = toLowerChar d \<longleftrightarrow>
        (of_char (toLowerChar c) :: nat) = of_char (toLowerChar d)"
    by (simp only: of_char_eq_iff)
  also have "\<dots> \<longleftrightarrow> (if U x then x + 32 else x) = (if U y then y + 32 else y)"
    by (simp only: of_char_toLowerChar up x_def y_def)
  also have "\<dots> \<longleftrightarrow> (x = y \<or> (U x \<and> y = x + 32) \<or> (U y \<and> x = y + 32))"
    by (cases "U x"; cases "U y") (auto simp: U_def)
  also have "\<dots> \<longleftrightarrow> sameLetter c d"
    by (simp only: sameLetter_def up cd x_def y_def)
  finally show ?thesis .
qed

lemma toLowerCase_eq_iff: "toLowerCase s = toLowerCase t \<longleftrightarrow> equalsIgnoringCase s t"
proof (induction s arbitrary: t)
  case Nil
  then show ?case by (simp add: toLowerCase_def equalsIgnoringCase_def)
next
  case (Cons c s)
  then show ?case
    by (cases t) (auto simp: toLowerCase_def equalsIgnoringCase_def toLowerChar_eq_iff)
qed

lemma toLowerChar_hyphen: "toLowerChar c = CHR ''-'' \<longleftrightarrow> c = CHR ''-''"
proof -
  have "toLowerChar c = CHR ''-'' \<longleftrightarrow> (of_char (toLowerChar c) :: nat) = of_char (CHR ''-'')"
    by (simp only: of_char_eq_iff)
  also have "\<dots> \<longleftrightarrow> (of_char c :: nat) = of_char (CHR ''-'')"
    unfolding of_char_toLowerChar isUpper_def by auto
  also have "\<dots> \<longleftrightarrow> c = CHR ''-''"
    by (simp only: of_char_eq_iff)
  finally show ?thesis .
qed

lemma removeHyphens_toLowerCase: "removeHyphens (toLowerCase s) = toLowerCase (withoutHyphens s)"
  by (induction s) (simp_all add: removeHyphens_def toLowerCase_def toLowerChar_hyphen)





lemma lower_in_progress': "toLowerCase ''in-progress'' = ''in-progress''"
  by code_simp


lemma lower_accented: "toLowerCase [CHR 0x43, CHR 0x41, CHR 0x46, CHR 0xC9] = [CHR 0x63, CHR 0x61, CHR 0x66, CHR 0xE9]"
    "toLowerCase [CHR 0xD7, CHR 0xDF, CHR 0xFF] = [CHR 0xD7, CHR 0xDF, CHR 0xFF]"
  by code_simp+

lemma lower_high: "toLowerCase ''High'' = ''high''" "toLowerCase ''high'' = ''high''"
    "toLowerCase ''Low'' = ''low''"
  by code_simp+

section \<open>Filtering\<close>



text \<open>
  C5. With severity, status and category all \<open>all\<close> and an empty search text the filter
  returns the collection as it is.
\<close>

theorem filteredAlerts_all_identity:
  "filteredAlerts as
     \<lparr> severity_f = ''all'', status_f = ''all'', category_f = ''all'', search = [] \<rparr> = as"
  by (simp add: filteredAlerts_def matchesSeverity_def matchesStatus_def matchesCategory_def
      matchesSearch_def)

text \<open>
  C6. The filtered output is a subsequence of the collection: its elements are elements of
  the collection, in their original order. Filtering computes a new list, and changing a
  criterion writes the criteria only, so the collection of the state stays as it was.
\<close>

theorem filteredAlerts_subseq:
  "subseq (filteredAlerts as f) as
   \<and> (\<forall>a \<in> set (filteredAlerts as f). a \<in> set as)
   \<and> alerts (handleFilterChange filterType v st) = alerts st
   \<and> subseq (filteredAlerts (alerts st) (filters (handleFilterChange filterType v st))) (alerts st)"
  by (simp add: filteredAlerts_def handleFilterChange_def)

theorem filteredAlerts_subseq_witness:
  "subseq
     (filteredAlerts
        [\<lparr> id' = ''A1'', severity = ''High'', category = ''CVE'', status = ''New'',
            description = ''x'', timestamp = JUndefined \<rparr>,
         \<lparr> id' = ''A2'', severity = ''Low'', category = ''S3'', status = ''New'',
            description = ''y'', timestamp = JUndefined \<rparr>]
        \<lparr> severity_f = ''high'', status_f = ''all'', category_f = ''all'', search = [] \<rparr>)
     [\<lparr> id' = ''A1'', severity = ''High'', category = ''CVE'', status = ''New'',
         description = ''x'', timestamp = JUndefined \<rparr>,
      \<lparr> id' = ''A2'', severity = ''Low'', category = ''S3'', status = ''New'',
         description = ''y'', timestamp = JUndefined \<rparr>]
   \<and> filteredAlerts
        [\<lparr> id' = ''A1'', severity = ''High'', category = ''CVE'', status = ''New'',
            description = ''x'', timestamp = JUndefined \<rparr>,
         \<lparr> id' = ''A2'', severity = ''Low'', category = ''S3'', status = ''New'',
            description = ''y'', timestamp = JUndefined \<rparr>]
        \<lparr> severity_f = ''high'', status_f = ''all'', category_f = ''all'', search = [] \<rparr>
     = [\<lparr> id' = ''A1'', severity = ''High'', category = ''CVE'', status = ''New'',
           description = ''x'', timestamp = JUndefined \<rparr>]"
  using filteredAlerts_subseq
    [of "[\<lparr> id' = ''A1'', severity = ''High'', category = ''CVE'', status = ''New'',
            description = ''x'', timestamp = JUndefined \<rparr>,
          \<lparr> id' = ''A2'', severity = ''Low'', category = ''S3'', status = ''New'',
            description = ''y'', timestamp = JUndefined \<rparr>]"
        "\<lparr> severity_f = ''high'', status_f = ''all'', category_f = ''all'', search = [] \<rparr>"]
  by (simp add: filteredAlerts_def matchesSeverity_def matchesStatus_def matchesCategory_def
      matchesSearch_def lower_high)

section \<open>Aggregation\<close>

lemma statistics_partition:
  "new (statistics as) + acknowledged (statistics as) + inProgress (statistics as)
     + resolved (statistics as) + length (filter (\<lambda>a. status a \<notin> set lifecycle) as)
   = total (statistics as)"
  by (induction as) (auto simp: statistics_def lifecycle_def)

lemma filter_none: "(\<forall>a \<in> set as. \<not> P a) \<Longrightarrow> filter P as = []"
  by (induction as) auto

text \<open>
  C2, as amended. When every alert of the collection has one of the four lifecycle values
  as its status, spelled exactly, the four counts add up to the total.
\<close>

theorem statistics_sum_total:
  assumes "\<forall>a \<in> set as. status a \<in> set lifecycle"
  shows "new (statistics as) + acknowledged (statistics as) + inProgress (statistics as)
           + resolved (statistics as) = total (statistics as)"
proof -
  from assms have "filter (\<lambda>a. status a \<notin> set lifecycle) as = []"
    by (intro filter_none) simp
  with statistics_partition [of as] show ?thesis by simp
qed

theorem statistics_sum_total_witness:
  "new (statistics [\<lparr> id' = ''A1'', severity = ''High'', category = ''CVE'', status = ''New'',
        description = ''x'', timestamp = JUndefined \<rparr>, \<lparr> id' = ''A1'', severity = ''High'', category = ''CVE'', status = ''Resolved'',
        description = ''x'', timestamp = JUndefined \<rparr>]) + acknowledged (statistics [\<lparr> id' = ''A1'', severity = ''High'', category = ''CVE'', status = ''New'',
        description = ''x'', timestamp = JUndefined \<rparr>, \<lparr> id' = ''A1'', severity = ''High'', category = ''CVE'', status = ''Resolved'',
        description = ''x'', timestamp = JUndefined \<rparr>])
     + inProgress (statistics [\<lparr> id' = ''A1'', severity = ''High'', category = ''CVE'', status = ''New'',
        description = ''x'', timestamp = JUndefined \<rparr>, \<lparr> id' = ''A1'', severity = ''High'', category = ''CVE'', status = ''Resolved'',
        description = ''x'', timestamp = JUndefined \<rparr>]) + resolved (statistics [\<lparr> id' = ''A1'', severity = ''High'', category = ''CVE'', status = ''New'',
        description = ''x'', timestamp = JUndefined \<rparr>, \<lparr> id' = ''A1'', severity = ''High'', category = ''CVE'', status = ''Resolved'',
        description = ''x'', timestamp = JUndefined \<rparr>]) = 2
   \<and> total (statistics [\<lparr> id' = ''A1'', severity = ''High'', category = ''CVE'', status = ''New'',
        description = ''x'', timestamp = JUndefined \<rparr>, \<lparr> id' = ''A1'', severity = ''High'', category = ''CVE'', status = ''Resolved'',
        description = ''x'', timestamp = JUndefined \<rparr>]) = 2"
  using statistics_sum_total [of "[\<lparr> id' = ''A1'', severity = ''High'', category = ''CVE'', status = ''New'',
        description = ''x'', timestamp = JUndefined \<rparr>, \<lparr> id' = ''A1'', severity = ''High'', category = ''CVE'', status = ''Resolved'',
        description = ''x'', timestamp = JUndefined \<rparr>]"]
  by (simp add: statistics_def lifecycle_def)

text \<open>
  C2, as stated, fails on a collection holding one alert whose status is spelled
  \<open>in-progress\<close>: the four counts are all zero and the total is one.
\<close>

theorem statistics_sum_counterexample:
  "new (statistics [\<lparr> id' = ''A1'', severity = ''High'', category = ''CVE'', status = ''in-progress'',
        description = ''x'', timestamp = JUndefined \<rparr>]) + acknowledged (statistics [\<lparr> id' = ''A1'', severity = ''High'', category = ''CVE'', status = ''in-progress'',
        description = ''x'', timestamp = JUndefined \<rparr>])
     + inProgress (statistics [\<lparr> id' = ''A1'', severity = ''High'', category = ''CVE'', status = ''in-progress'',
        description = ''x'', timestamp = JUndefined \<rparr>]) + resolved (statistics [\<lparr> id' = ''A1'', severity = ''High'', category = ''CVE'', status = ''in-progress'',
        description = ''x'', timestamp = JUndefined \<rparr>])
   \<noteq> total (statistics [\<lparr> id' = ''A1'', severity = ''High'', category = ''CVE'', status = ''in-progress'',
        description = ''x'', timestamp = JUndefined \<rparr>])"
  by (simp add: statistics_def)

lemma statistics_count_list:
  "new (statistics as) = count_list (map status as) ''New''
   \<and> acknowledged (statistics as) = count_list (map status as) ''Acknowledged''
   \<and> inProgress (statistics as) = count_list (map status as) ''In-Progress''
   \<and> resolved (statistics as) = count_list (map status as) ''Resolved''
   \<and> total (statistics as) = length as"
  by (induction as) (simp_all add: statistics_def)

lemma lifecycle_folded:
  "toLowerCase ''New'' = ''new''"
  "toLowerCase ''Acknowledged'' = ''acknowledged''"
  "toLowerCase ''InProgress'' = ''inprogress''"
  "toLowerCase ''Resolved'' = ''resolved''"
  by code_simp+

lemma folded_distinct:
  assumes "l \<in> set lifecycle" "l' \<in> set lifecycle"
    and "toLowerCase (withoutHyphens l) = toLowerCase (withoutHyphens l')"
  shows "l = l'"
proof -
  from assms(1) have l: "l = ''New'' \<or> l = ''Acknowledged'' \<or> l = ''In-Progress'' \<or> l = ''Resolved''"
    by (simp add: lifecycle_def)
  from assms(2) have l': "l' = ''New'' \<or> l' = ''Acknowledged'' \<or> l' = ''In-Progress'' \<or> l' = ''Resolved''"
    by (simp add: lifecycle_def)
  from l l' assms(3) show ?thesis
    by (elim disjE) (simp_all add: lifecycle_folded)
qed

lemma differs_only_in_spelling:
  assumes "l \<in> set lifecycle"
    and "equalsIgnoringCase (withoutHyphens s) (withoutHyphens l)"
    and "s \<noteq> l"
  shows "s \<notin> set lifecycle"
proof
  assume s: "s \<in> set lifecycle"
  from assms(2) have "toLowerCase (withoutHyphens s) = toLowerCase (withoutHyphens l)"
    by (simp add: toLowerCase_eq_iff)
  with s assms(1) have "s = l"
    by (rule folded_distinct)
  with assms(3) show False by simp
qed

text \<open>
  C10. The counts classify by exact string equality: each of the four counts is the
  number of alerts whose status is, character for character, \<open>New\<close>, \<open>Acknowledged\<close>,
  \<open>In-Progress\<close> or \<open>Resolved\<close>, and the total is the length of the collection. The
  filter compares the status up to case and hyphens instead. So an alert whose status
  equals a lifecycle value up to case and hyphens, but is spelled differently, adds one to
  the total and nothing to any of the four counts, while the status filter set to that
  lifecycle value selects it.
\<close>

theorem statistics_exact_match:
  "(new (statistics as) = count_list (map status as) ''New''
    \<and> acknowledged (statistics as) = count_list (map status as) ''Acknowledged''
    \<and> inProgress (statistics as) = count_list (map status as) ''In-Progress''
    \<and> resolved (statistics as) = count_list (map status as) ''Resolved''
    \<and> total (statistics as) = length as)
   \<and> (l \<in> set lifecycle
        \<and> equalsIgnoringCase (withoutHyphens (status a)) (withoutHyphens l)
        \<and> status a \<noteq> l
      \<longrightarrow> statistics (a # as) = (statistics as)\<lparr> total := total (statistics as) + 1 \<rparr>
          \<and> matchesStatus (f\<lparr> status_f := l \<rparr>) a)"
proof (intro conjI impI)
  assume h: "l \<in> set lifecycle
        \<and> equalsIgnoringCase (withoutHyphens (status a)) (withoutHyphens l)
        \<and> status a \<noteq> l"
  then have "status a \<notin> set lifecycle"
    using differs_only_in_spelling [of l "status a"] by simp
  then show "statistics (a # as) = (statistics as)\<lparr> total := total (statistics as) + 1 \<rparr>"
    by (simp add: statistics_def lifecycle_def)
  from h have "toLowerCase (withoutHyphens (status a)) = toLowerCase (withoutHyphens l)"
    by (simp add: toLowerCase_eq_iff)
  then show "matchesStatus (f\<lparr> status_f := l \<rparr>) a"
    by (simp add: matchesStatus_def Let_def removeHyphens_toLowerCase)
qed (simp_all add: statistics_count_list)

theorem statistics_exact_match_witness:
  "statistics
     [\<lparr> id' = ''A1'', severity = ''High'', category = ''CVE'', status = ''in-progress'',
        description = ''x'', timestamp = JUndefined \<rparr>,
      \<lparr> id' = ''A2'', severity = ''Low'', category = ''S3'', status = ''In-Progress'',
        description = ''y'', timestamp = JUndefined \<rparr>]
     = \<lparr> new = 0, acknowledged = 0, inProgress = 1, resolved = 0, total = 2 \<rparr>
   \<and> filteredAlerts
       [\<lparr> id' = ''A1'', severity = ''High'', category = ''CVE'', status = ''in-progress'',
        description = ''x'', timestamp = JUndefined \<rparr>,
        \<lparr> id' = ''A2'', severity = ''Low'', category = ''S3'', status = ''In-Progress'',
        description = ''y'', timestamp = JUndefined \<rparr>]
       \<lparr> severity_f = ''all'', status_f = ''In-Progress'', category_f = ''all'', search = [] \<rparr>
     = [\<lparr> id' = ''A1'', severity = ''High'', category = ''CVE'', status = ''in-progress'',
        description = ''x'', timestamp = JUndefined \<rparr>,
        \<lparr> id' = ''A2'', severity = ''Low'', category = ''S3'', status = ''In-Progress'',
        description = ''y'', timestamp = JUndefined \<rparr>]"
proof -
  have e: "equalsIgnoringCase (withoutHyphens ''in-progress'') (withoutHyphens ''In-Progress'')"
    unfolding toLowerCase_eq_iff [symmetric] by code_simp
  have low: "toLowerCase ''in-progress'' = ''in-progress''"
      "toLowerCase ''In-Progress'' = ''in-progress''"
    by code_simp+
  show ?thesis
    using statistics_exact_match
      [of "[\<lparr> id' = ''A2'', severity = ''Low'', category = ''S3'', status = ''In-Progress'',
        description = ''y'', timestamp = JUndefined \<rparr>]"
          "''In-Progress''"
          "\<lparr> id' = ''A1'', severity = ''High'', category = ''CVE'', status = ''in-progress'',
        description = ''x'', timestamp = JUndefined \<rparr>"
          "\<lparr> severity_f = ''all'', status_f = ''all'', category_f = ''all'', search = [] \<rparr>"]
      e
    by (simp add: statistics_def lifecycle_def filteredAlerts_def matchesSeverity_def
        matchesStatus_def matchesCategory_def matchesSearch_def low removeHyphens_def)
qed

section \<open>The transition function\<close>

text \<open>
  C1. \<open>getNextStatus\<close> gives \<open>Acknowledged\<close> for \<open>New\<close>, \<open>In-Progress\<close> for
  \<open>Acknowledged\<close>, \<open>Resolved\<close> for \<open>In-Progress\<close>, and \<open>null\<close> for \<open>Resolved\<close>.
\<close>

theorem getNextStatus_lifecycle:
  "getNextStatus ''New'' = JStr ''Acknowledged''
   \<and> getNextStatus ''Acknowledged'' = JStr ''In-Progress''
   \<and> getNextStatus ''In-Progress'' = JStr ''Resolved''
   \<and> getNextStatus ''Resolved'' = JNull"
  by (simp add: getNextStatus_def transitions_def)

lemma map_of_transitions_None: "s \<notin> set lifecycle \<Longrightarrow> map_of transitions s = None"
  by (simp add: transitions_def lifecycle_def)

text \<open>
  C9, as amended. For a status that is neither one of the four lifecycle values nor the
  name of a property inherited from \<open>Object.prototype\<close>, \<open>getNextStatus\<close> returns
  \<open>undefined\<close>, not \<open>null\<close>; the card takes the alert for transitionable and its
  button offers \<open>undefined\<close> as the target.
\<close>

theorem getNextStatus_unlisted:
  assumes "status a \<notin> set lifecycle"
    and "status a \<notin> set objectPrototypeKeys"
  shows "getNextStatus (status a) = JUndefined \<and> getNextStatus (status a) \<noteq> JNull
         \<and> nextStatus a = JUndefined \<and> canTransition a
         \<and> transitionButton a = Inr (Some (id' a, JUndefined))"
  using map_of_transitions_None [OF assms(1)] assms(2)
  by (simp add: getNextStatus_def canTransition_def nextStatus_def transitionButton_def)

theorem getNextStatus_unlisted_witness:
  "getNextStatus ''Pending'' = JUndefined
   \<and> canTransition \<lparr> id' = ''A1'', severity = ''High'', category = ''CVE'', status = ''Pending'',
        description = ''x'', timestamp = JUndefined \<rparr>
   \<and> transitionButton \<lparr> id' = ''A1'', severity = ''High'', category = ''CVE'', status = ''Pending'',
        description = ''x'', timestamp = JUndefined \<rparr> = Inr (Some (''A1'', JUndefined))"
  using getNextStatus_unlisted [of "\<lparr> id' = ''A1'', severity = ''High'', category = ''CVE'', status = ''Pending'',
        description = ''x'', timestamp = JUndefined \<rparr>"]
  by (simp add: lifecycle_def objectPrototypeKeys_def)

text \<open>
  C9, as stated, fails for the status \<open>toString\<close>: it is none of the four lifecycle
  values, and the lookup finds the inherited member instead of \<open>undefined\<close>.
\<close>

theorem getNextStatus_unlisted_counterexample:
  "''toString'' \<notin> set lifecycle \<and> getNextStatus ''toString'' \<noteq> JUndefined"
  by (simp add: lifecycle_def getNextStatus_def transitions_def objectPrototypeKeys_def)

section \<open>Status updates\<close>

lemma handleStatusUpdate_ok:
  "ok code \<Longrightarrow>
   handleStatusUpdate (Response code) alertId newStatus st =
     (None, st\<lparr> alerts :=
        map (\<lambda>a. if id' a = alertId then a\<lparr> status := newStatus \<rparr> else a) (alerts st) \<rparr>)"
  by (simp add: handleStatusUpdate_def)

lemma map_update_absent:
  "alertId \<notin> id' ` set as \<Longrightarrow>
   map (\<lambda>a. if id' a = alertId then a\<lparr> status := newStatus \<rparr> else a) as = as"
  by (induction as) auto

lemma handleStatusUpdate_timestamps:
  "map timestamp (alerts (snd (handleStatusUpdate r alertId newStatus st)))
   = map timestamp (alerts st)"
  by (cases r) (simp_all add: handleStatusUpdate_def comp_def if_distrib cong: if_cong)

text \<open>
  C7. After a status update that the server accepted, the collection has the same length,
  every alert with another id is the alert it was, and an alert with the given id is the
  alert it was with only its status replaced (id, severity, category, description and
  timestamp are kept); the filter criteria are not touched and nothing is reported.
\<close>

theorem handleStatusUpdate_frame:
  assumes "ok code"
    and "handleStatusUpdate (Response code) alertId newStatus st = (msg, st')"
  shows "msg = None \<and> filters st' = filters st
         \<and> length (alerts st') = length (alerts st)
         \<and> (\<forall>i < length (alerts st).
              (id' (alerts st ! i) \<noteq> alertId \<longrightarrow> alerts st' ! i = alerts st ! i)
              \<and> (id' (alerts st ! i) = alertId \<longrightarrow>
                   alerts st' ! i = (alerts st ! i)\<lparr> status := newStatus \<rparr>
                   \<and> id' (alerts st' ! i) = id' (alerts st ! i)
                   \<and> severity (alerts st' ! i) = severity (alerts st ! i)
                   \<and> category (alerts st' ! i) = category (alerts st ! i)
                   \<and> description (alerts st' ! i) = description (alerts st ! i)
                   \<and> timestamp (alerts st' ! i) = timestamp (alerts st ! i)))"
proof -
  from assms have msg: "msg = None"
    and st': "st' = st\<lparr> alerts :=
        map (\<lambda>a. if id' a = alertId then a\<lparr> status := newStatus \<rparr> else a) (alerts st) \<rparr>"
    by (simp_all add: handleStatusUpdate_ok)
  show ?thesis
    by (simp add: msg st')
qed

theorem handleStatusUpdate_frame_witness:
  "ok 200
   \<and> handleStatusUpdate (Response 200) ''A1'' ''Acknowledged''
        \<lparr> alerts = [\<lparr> id' = ''A1'', severity = ''High'', category = ''CVE'', status = ''New'',
        description = ''x'', timestamp = JStr ''2024-05-01T10:00:00Z'' \<rparr>, \<lparr> id' = ''A2'', severity = ''High'', category = ''CVE'', status = ''New'',
        description = ''x'', timestamp = JStr ''2024-05-01T10:00:00Z'' \<rparr>],
          filters = \<lparr> severity_f = ''all'', status_f = ''all'', category_f = ''all'',
                      search = [] \<rparr> \<rparr>
     = (None,
        \<lparr> alerts = [\<lparr> id' = ''A1'', severity = ''High'', category = ''CVE'', status = ''Acknowledged'',
        description = ''x'', timestamp = JStr ''2024-05-01T10:00:00Z'' \<rparr>, \<lparr> id' = ''A2'', severity = ''High'', category = ''CVE'', status = ''New'',
        description = ''x'', timestamp = JStr ''2024-05-01T10:00:00Z'' \<rparr>],
          filters = \<lparr> severity_f = ''all'', status_f = ''all'', category_f = ''all'',
                      search = [] \<rparr> \<rparr>)"
  using handleStatusUpdate_frame
    [of 200 "''A1''" "''Acknowledged''"
        "\<lparr> alerts = [\<lparr> id' = ''A1'', severity = ''High'', category = ''CVE'', status = ''New'',
        description = ''x'', timestamp = JStr ''2024-05-01T10:00:00Z'' \<rparr>, \<lparr> id' = ''A2'', severity = ''High'', category = ''CVE'', status = ''New'',
        description = ''x'', timestamp = JStr ''2024-05-01T10:00:00Z'' \<rparr>],
           filters = \<lparr> severity_f = ''all'', status_f = ''all'', category_f = ''all'',
                       search = [] \<rparr> \<rparr>"
        None
        "\<lparr> alerts = [\<lparr> id' = ''A1'', severity = ''High'', category = ''CVE'', status = ''Acknowledged'',
        description = ''x'', timestamp = JStr ''2024-05-01T10:00:00Z'' \<rparr>, \<lparr> id' = ''A2'', severity = ''High'', category = ''CVE'', status = ''New'',
        description = ''x'', timestamp = JStr ''2024-05-01T10:00:00Z'' \<rparr>],
           filters = \<lparr> severity_f = ''all'', status_f = ''all'', category_f = ''all'',
                       search = [] \<rparr> \<rparr>"]
  by (simp add: ok_def handleStatusUpdate_def)

text \<open>
  C8. For an id that no alert has, the store's status update answers \<open>NotFound\<close> and
  leaves the store as it was; the HTTP layer turns that into \<open>404\<close>, which is not an
  \<open>ok\<close> response, so the dashboard reports the failure and keeps its state. Whatever
  the request comes back with, the dashboard's state is unchanged for such an id: the
  per-id update maps the collection to itself.
\<close>

theorem unknown_id_NotFound:
  assumes "alertId \<notin> id' ` set store"
    and "alertId \<notin> id' ` set (alerts st)"
  shows "updateAlertStatus alertId target store = (Inl NotFound, store)
         \<and> httpStatus (fst (updateAlertStatus alertId target store)) = 404
         \<and> handleStatusUpdate
              (Response (httpStatus (fst (updateAlertStatus alertId target store))))
              alertId target st
            = (Some ''Failed to update alert status. Please try again.'', st)
         \<and> snd (handleStatusUpdate r alertId target st) = st
         \<and> map (\<lambda>a. if id' a = alertId then a\<lparr> status := target \<rparr> else a) (alerts st)
            = alerts st"
proof -
  from assms(1) have "find (\<lambda>a. id' a = alertId) store = None"
    by (auto simp: find_None_iff)
  then have upd: "updateAlertStatus alertId target store = (Inl NotFound, store)"
    by (simp add: updateAlertStatus_def)
  have code: "httpStatus (Inl NotFound) = 404"
    by (simp add: httpStatus_def)
  have nok: "\<not> ok 404"
    by (simp add: ok_def)
  have same: "map (\<lambda>a. if id' a = alertId then a\<lparr> status := target \<rparr> else a) (alerts st)
              = alerts st"
    using assms(2) by (rule map_update_absent)
  have any: "snd (handleStatusUpdate r alertId target st) = st"
    by (cases r) (simp_all add: handleStatusUpdate_def same)
  show ?thesis
    by (simp add: upd code any same) (simp add: handleStatusUpdate_def nok)
qed

theorem unknown_id_NotFound_witness:
  "updateAlertStatus ''Z9'' ''Acknowledged'' [\<lparr> id' = ''A1'', severity = ''High'', category = ''CVE'', status = ''New'',
        description = ''x'', timestamp = JStr ''2024-05-01T10:00:00Z'' \<rparr>, \<lparr> id' = ''A2'', severity = ''High'', category = ''CVE'', status = ''New'',
        description = ''x'', timestamp = JStr ''2024-05-01T10:00:00Z'' \<rparr>]
     = (Inl NotFound, [\<lparr> id' = ''A1'', severity = ''High'', category = ''CVE'', status = ''New'',
        description = ''x'', timestamp = JStr ''2024-05-01T10:00:00Z'' \<rparr>, \<lparr> id' = ''A2'', severity = ''High'', category = ''CVE'', status = ''New'',
        description = ''x'', timestamp = JStr ''2024-05-01T10:00:00Z'' \<rparr>])
   \<and> snd (handleStatusUpdate (Response 200) ''Z9'' ''Acknowledged''
        \<lparr> alerts = [\<lparr> id' = ''A1'', severity = ''High'', category = ''CVE'', status = ''New'',
        description = ''x'', timestamp = JStr ''2024-05-01T10:00:00Z'' \<rparr>, \<lparr> id' = ''A2'', severity = ''High'', category = ''CVE'', status = ''New'',
        description = ''x'', timestamp = JStr ''2024-05-01T10:00:00Z'' \<rparr>],
          filters = \<lparr> severity_f = ''all'', status_f = ''all'', category_f = ''all'',
                      search = [] \<rparr> \<rparr>)
     = \<lparr> alerts = [\<lparr> id' = ''A1'', severity = ''High'', category = ''CVE'', status = ''New'',
        description = ''x'', timestamp = JStr ''2024-05-01T10:00:00Z'' \<rparr>, \<lparr> id' = ''A2'', severity = ''High'', category = ''CVE'', status = ''New'',
        description = ''x'', timestamp = JStr ''2024-05-01T10:00:00Z'' \<rparr>],
         filters = \<lparr> severity_f = ''all'', status_f = ''all'', category_f = ''all'',
                     search = [] \<rparr> \<rparr>"
  using unknown_id_NotFound
    [of "''Z9''" "[\<lparr> id' = ''A1'', severity = ''High'', category = ''CVE'', status = ''New'',
        description = ''x'', timestamp = JStr ''2024-05-01T10:00:00Z'' \<rparr>, \<lparr> id' = ''A2'', severity = ''High'', category = ''CVE'', status = ''New'',
        description = ''x'', timestamp = JStr ''2024-05-01T10:00:00Z'' \<rparr>]"
        "\<lparr> alerts = [\<lparr> id' = ''A1'', severity = ''High'', category = ''CVE'', status = ''New'',
        description = ''x'', timestamp = JStr ''2024-05-01T10:00:00Z'' \<rparr>, \<lparr> id' = ''A2'', severity = ''High'', category = ''CVE'', status = ''New'',
        description = ''x'', timestamp = JStr ''2024-05-01T10:00:00Z'' \<rparr>],
           filters = \<lparr> severity_f = ''all'', status_f = ''all'', category_f = ''all'',
                       search = [] \<rparr> \<rparr>"
        "''Acknowledged''" "Response 200"]
  by simp

section \<open>The constructor and the timestamp\<close>

lemma Alert_fields:
  "Alert props = props\<lparr> timestamp := JUndefined \<rparr>"
  by (simp add: Alert_def)

text \<open>
  C3. The constructor copies id, severity, category, status and description from its
  argument and gives the new alert no timestamp, also when the argument carries one; the
  card, for its part, formats \<open>alert.timestamp\<close> of every alert it shows.
\<close>

theorem Alert_drops_timestamp:
  "Alert \<lparr> id' = ''A1'', severity = ''High'', category = ''CVE'', status = ''New'',
        description = ''x'', timestamp = JStr ''2024-05-01T10:00:00Z'' \<rparr>
     = \<lparr> id' = ''A1'', severity = ''High'', category = ''CVE'', status = ''New'',
         description = ''x'', timestamp = JUndefined \<rparr>
   \<and> timestamp (Alert \<lparr> id' = ''A1'', severity = ''High'', category = ''CVE'', status = ''New'',
        description = ''x'', timestamp = JStr ''2024-05-01T10:00:00Z'' \<rparr>) \<noteq> timestamp \<lparr> id' = ''A1'', severity = ''High'', category = ''CVE'', status = ''New'',
        description = ''x'', timestamp = JStr ''2024-05-01T10:00:00Z'' \<rparr>"
  by (simp add: Alert_def)

end
